theory Spec2Isabelle
  imports Main "HOL-Library.Word" "HOL-Library.Char_ord" "HOL-Library.List_Lexorder"
    "HOL-Library.AList" "HOL-Library.Sublist"
begin

section \<open>Strings\<close>

text \<open>
  A Go \<open>string\<close> is a sequence of bytes; so is \<open>string\<close> here (a list of 8-bit
  characters). \<open>len(s)\<close> is \<open>length s\<close> and \<open>s == ""\<close> is \<open>s = []\<close>.
\<close>

section \<open>The library functions of \<open>net/url\<close> the program calls\<close>

text \<open>
  \<open>getConnectionString\<close> calls \<open>url.Values.Add\<close>, \<open>url.Values.Encode\<close>,
  \<open>url.User\<close>, \<open>url.UserPassword\<close> and \<open>Userinfo.String\<close>. They belong to the Go
  standard library; they are embedded here from the library's own code, restricted to
  the two escaping modes the program reaches.
\<close>

datatype encoding = encodeUserPassword | encodeQueryComponent

text \<open>\<open>shouldEscape(c, mode)\<close>: the case order of the library is kept.\<close>

definition shouldEscape :: "char \<Rightarrow> encoding \<Rightarrow> bool" where
  "shouldEscape c mode =
     (if (CHR ''a'' \<le> c \<and> c \<le> CHR ''z'') \<or> (CHR ''A'' \<le> c \<and> c \<le> CHR ''Z'')
          \<or> (CHR ''0'' \<le> c \<and> c \<le> CHR ''9'')
      then False
      else if c \<in> set ''-_.~'' then False
      else if c \<in> set ''$&+,/:;=?@''
      then (case mode of
              encodeUserPassword \<Rightarrow>
                c = CHR ''@'' \<or> c = CHR ''/'' \<or> c = CHR ''?'' \<or> c = CHR '':''
            | encodeQueryComponent \<Rightarrow> True)
      else True)"

definition upperhex :: string where
  "upperhex = ''0123456789ABCDEF''"

text \<open>
  One byte of \<open>escape(s, mode)\<close>: a space becomes \<open>+\<close> in a query component, any other
  byte that must be escaped becomes \<open>%\<close> and the two hexadecimal digits
  \<open>upperhex[c>>4]\<close>, \<open>upperhex[c&15]\<close>, every other byte is copied.
\<close>

definition escape_byte :: "char \<Rightarrow> encoding \<Rightarrow> string" where
  "escape_byte c mode =
     (if shouldEscape c mode
      then (if c = CHR '' '' \<and> mode = encodeQueryComponent then ''+''
            else [CHR ''%'', upperhex ! (of_char c div 16), upperhex ! (of_char c mod 16)])
      else [c])"

text \<open>
  \<open>escape\<close> walks the bytes from left to right. (The library first counts the bytes to
  escape and returns \<open>s\<close> itself when there are none: the same value.)
\<close>

fun escape :: "string \<Rightarrow> encoding \<Rightarrow> string" where
  "escape [] mode = []"
| "escape (c # s) mode = escape_byte c mode @ escape s mode"

definition QueryEscape :: "string \<Rightarrow> string" where
  "QueryEscape s = escape s encodeQueryComponent"

text \<open>
  \<open>url.Values\<close> is \<open>map[string][]string\<close>. It is kept as an association list with
  one entry for each key; \<open>Encode\<close> sorts the keys, so the order of the entries is not
  observable.
\<close>

type_synonym Values = "(string \<times> string list) list"

definition Values_get :: "Values \<Rightarrow> string \<Rightarrow> string list" where
  "Values_get v key = (case map_of v key of None \<Rightarrow> [] | Some vs \<Rightarrow> vs)"

text \<open>\<open>v.Add(key, value)\<close> is \<open>v[key] = append(v[key], value)\<close>.\<close>

definition Add :: "Values \<Rightarrow> string \<Rightarrow> string \<Rightarrow> Values" where
  "Add v key val = AList.update key (Values_get v key @ [val]) v"

text \<open>
  \<open>v.Encode()\<close>: the keys are sorted (\<open>sort.Strings\<close>, bytewise), and every value of
  every key is written as \<open>key=value\<close>, both escaped as query components, with \<open>&\<close>
  before it whenever the buffer is not empty.
\<close>

definition Encode_value :: "string \<Rightarrow> string \<Rightarrow> string \<Rightarrow> string" where
  "Encode_value keyEscaped val buf =
     (if length buf > 0 then buf @ ''&'' else buf) @ keyEscaped @ ''='' @ QueryEscape val"

definition Encode_key :: "Values \<Rightarrow> string \<Rightarrow> string \<Rightarrow> string" where
  "Encode_key v k buf = fold (Encode_value (QueryEscape k)) (Values_get v k) buf"

definition Encode :: "Values \<Rightarrow> string" where
  "Encode v = (if length v = 0 then [] else fold (Encode_key v) (sort (map fst v)) [])"

text \<open>
  \<open>url.User\<close> and \<open>url.UserPassword\<close> are written \<open>url_User\<close> and
  \<open>url_UserPassword\<close>: \<open>User\<close> is also a field of the plugin context below. The
  fields \<open>username\<close> and \<open>password\<close> of the library's \<open>Userinfo\<close> carry the
  prefix \<open>userinfo_\<close>.
\<close>

record Userinfo =
  userinfo_username :: string
  userinfo_password :: string
  passwordSet :: bool

definition url_User :: "string \<Rightarrow> Userinfo" where
  "url_User u = \<lparr>userinfo_username = u, userinfo_password = [], passwordSet = False\<rparr>"

definition url_UserPassword :: "string \<Rightarrow> string \<Rightarrow> Userinfo" where
  "url_UserPassword u p =
     \<lparr>userinfo_username = u, userinfo_password = p, passwordSet = True\<rparr>"

definition Userinfo_String :: "Userinfo \<Rightarrow> string" where
  "Userinfo_String u =
     (let s = escape (userinfo_username u) encodeUserPassword
      in if passwordSet u then s @ '':'' @ escape (userinfo_password u) encodeUserPassword
         else s)"

section \<open>The connection string\<close>

record pluginConfig =
  Account :: string
  Username :: string
  Role :: string
  Warehouse :: string
  Database :: string
  Schema :: string
  ExtraConfig :: string

text \<open>
  The body of \<open>getConnectionString\<close> up to its \<open>return\<close>: the parameters and the
  credential prefix \<open>userPass\<close>.
\<close>

definition connectionParts ::
  "pluginConfig \<Rightarrow> string \<Rightarrow> string \<Rightarrow> string \<Rightarrow> string \<times> Values" where
  "connectionParts config password privateKey queryTag =
     (let params = [];
          params = Add params ''role'' (Role config);
          params = Add params ''warehouse'' (Warehouse config);
          params = Add params ''database'' (Database config);
          params = Add params ''schema'' (Schema config);
          params = (if queryTag \<noteq> [] then Add params ''QUERY_TAG'' queryTag else params)
      in if length privateKey \<noteq> 0
         then (let params = Add params ''authenticator'' ''SNOWFLAKE_JWT'';
                   params = Add params ''privateKey'' privateKey
               in (Userinfo_String (url_User (Username config)), params))
         else (Userinfo_String (url_UserPassword (Username config) password), params))"

text \<open>\<open>fmt.Sprintf("%s@%s?%s&%s", userPass, config.Account, params.Encode(), config.ExtraConfig)\<close>\<close>

definition getConnectionString ::
  "pluginConfig \<Rightarrow> string \<Rightarrow> string \<Rightarrow> string \<Rightarrow> string" where
  "getConnectionString config password privateKey queryTag =
     (case connectionParts config password privateKey queryTag of
        (userPass, params) \<Rightarrow>
          userPass @ ''@'' @ Account config @ ''?'' @ Encode params @ ''&'' @ ExtraConfig config)"

section \<open>The library function \<open>json.Marshal\<close>\<close>

text \<open>
  \<open>queryTagFromContext\<close> hands a \<open>queryTagData\<close> struct to \<open>json.Marshal\<close> of the
  Go standard library. The library inspects the kind of every field at run time; the
  kinds are the datatype \<open>go_value\<close>. A string, an integer and a boolean are written;
  a channel, function or complex value (\<open>GoUnsupportedType\<close>) and a floating-point
  NaN or infinity (\<open>GoUnsupportedValue\<close>) make \<open>Marshal\<close> return an error.
\<close>

datatype go_value =
    GoString string
  | GoInt64 "64 word"
  | GoBool bool
  | GoUnsupportedType string
  | GoUnsupportedValue string

datatype json_error = UnsupportedTypeError string | UnsupportedValueError string

text \<open>A struct field with its \<open>json\<close> tag: the name and the \<open>omitempty\<close> option.\<close>

record go_field =
  name :: string
  omitEmpty :: bool
  fvalue :: go_value

text \<open>\<open>strconv.FormatInt(i, 10)\<close>\<close>

fun digits10 :: "nat \<Rightarrow> string" where
  "digits10 n =
     (if n < 10 then [''0123456789'' ! n]
      else digits10 (n div 10) @ [''0123456789'' ! (n mod 10)])"

declare digits10.simps [simp del]

definition FormatInt :: "int \<Rightarrow> string" where
  "FormatInt i = (if i < 0 then CHR ''-'' # digits10 (nat (- i)) else digits10 (nat i))"

text \<open>
  \<open>utf8.DecodeRuneInString\<close>, as far as \<open>Marshal\<close> needs it: the number of bytes of
  the well-formed UTF-8 sequence at the head of a string whose first byte is not ASCII,
  and 0 when there is none (the library's \<open>RuneError\<close> of size 1).
\<close>

definition continuation :: "char \<Rightarrow> bool" where
  "continuation b = (128 \<le> (of_char b :: nat) \<and> (of_char b :: nat) \<le> 191)"

definition second_ok :: "nat \<Rightarrow> char \<Rightarrow> bool" where
  "second_ok b0 b1 =
     (let c = (of_char b1 :: nat)
      in if b0 = 224 then 160 \<le> c \<and> c \<le> 191
         else if b0 = 237 then 128 \<le> c \<and> c \<le> 159
         else if b0 = 240 then 144 \<le> c \<and> c \<le> 191
         else if b0 = 244 then 128 \<le> c \<and> c \<le> 143
         else 128 \<le> c \<and> c \<le> 191)"

definition rune_size :: "string \<Rightarrow> nat" where
  "rune_size s =
     (case s of
        [] \<Rightarrow> 0
      | b # rest \<Rightarrow>
          (let b0 = (of_char b :: nat);
               size = (if 194 \<le> b0 \<and> b0 \<le> 223 then 2
                       else if 224 \<le> b0 \<and> b0 \<le> 239 then 3
                       else if 240 \<le> b0 \<and> b0 \<le> 244 then 4
                       else 0)
           in if size = 0 \<or> length s < size then 0
              else if \<not> second_ok b0 (rest ! 0) then 0
              else if size \<le> 2 then 2
              else if \<not> continuation (rest ! 1) then 0
              else if size \<le> 3 then 3
              else if \<not> continuation (rest ! 2) then 0
              else 4))"

definition hex :: string where
  "hex = ''0123456789abcdef''"

text \<open>
  One ASCII byte of a JSON string, with HTML escaping on (the default of \<open>Marshal\<close>):
  the quote and the backslash get a backslash, newline, carriage return and tab their
  short form, the other control bytes and \<open><\<close>, \<open>>\<close>, \<open>&\<close> the form \<open>\u00XX\<close>.
  (Since Go 1.22 backspace and form feed are written \<open>\b\<close> and \<open>\f\<close>.)
\<close>

definition appendString_ascii :: "char \<Rightarrow> string" where
  "appendString_ascii b =
     (let n = (of_char b :: nat)
      in if 32 \<le> n \<and> b \<notin> set [CHR 0x22, CHR ''&'', CHR ''<'', CHR ''>'', CHR 0x5C] then [b]
         else if b = CHR 0x5C \<or> b = CHR 0x22 then [CHR 0x5C, b]
         else if n = 8 then [CHR 0x5C, CHR ''b'']
         else if n = 12 then [CHR 0x5C, CHR ''f'']
         else if n = 10 then [CHR 0x5C, CHR ''n'']
         else if n = 13 then [CHR 0x5C, CHR ''r'']
         else if n = 9 then [CHR 0x5C, CHR ''t'']
         else [CHR 0x5C, CHR ''u'', CHR ''0'', CHR ''0'', hex ! (n div 16), hex ! (n mod 16)])"

text \<open>
  The loop of \<open>appendString\<close>: an ill-formed byte is replaced by the escape of U+FFFD, the line
  and paragraph separators U+2028 and U+2029 are escaped, any other well-formed
  sequence is copied.
\<close>

function appendString_loop :: "string \<Rightarrow> string" where
  "appendString_loop [] = []"
| "appendString_loop (b # s) =
     (if (of_char b :: nat) < 128 then appendString_ascii b @ appendString_loop s
      else (let size = rune_size (b # s)
            in if size = 0 then [CHR 0x5C] @ ''ufffd'' @ appendString_loop s
               else if take size (b # s) = [CHR 0xE2, CHR 0x80, CHR 0xA8]
               then [CHR 0x5C] @ ''u2028'' @ appendString_loop (drop size (b # s))
               else if take size (b # s) = [CHR 0xE2, CHR 0x80, CHR 0xA9]
               then [CHR 0x5C] @ ''u2029'' @ appendString_loop (drop size (b # s))
               else take size (b # s) @ appendString_loop (drop size (b # s))))"
  by pat_completeness auto
termination
  by (relation "measure length") auto

declare appendString_loop.simps [simp del]

definition appendString :: "string \<Rightarrow> string" where
  "appendString src = [CHR 0x22] @ appendString_loop src @ [CHR 0x22]"

text \<open>\<open>isEmptyValue\<close>, which decides \<open>omitempty\<close>.\<close>

fun isEmptyValue :: "go_value \<Rightarrow> bool" where
  "isEmptyValue (GoString s) = (length s = 0)"
| "isEmptyValue (GoInt64 i) = (i = 0)"
| "isEmptyValue (GoBool b) = (b = False)"
| "isEmptyValue (GoUnsupportedType t) = False"
| "isEmptyValue (GoUnsupportedValue t) = False"

fun encode_value :: "go_value \<Rightarrow> json_error + string" where
  "encode_value (GoString s) = Inr (appendString s)"
| "encode_value (GoInt64 i) = Inr (FormatInt (sint i))"
| "encode_value (GoBool b) = Inr (if b then ''true'' else ''false'')"
| "encode_value (GoUnsupportedType t) = Inl (UnsupportedTypeError t)"
| "encode_value (GoUnsupportedValue t) = Inl (UnsupportedValueError t)"

text \<open>
  The struct encoder: \<open>next\<close> is \<open>{\<close> before the first field written and \<open>,\<close> after
  it; a field that is empty and tagged \<open>omitempty\<close> is skipped; the first field that
  does not serialize ends the encoding with its error.
\<close>

fun encode_fields :: "go_field list \<Rightarrow> char \<Rightarrow> json_error + string" where
  "encode_fields [] next = Inr (if next = CHR ''{'' then ''{}'' else ''}'')"
| "encode_fields (f # fs) next =
     (if omitEmpty f \<and> isEmptyValue (fvalue f) then encode_fields fs next
      else (case encode_value (fvalue f) of
              Inl e \<Rightarrow> Inl e
            | Inr s \<Rightarrow>
                (case encode_fields fs (CHR '','') of
                   Inl e \<Rightarrow> Inl e
                 | Inr rest \<Rightarrow> Inr ([next] @ appendString (name f) @ '':'' @ s @ rest))))"

definition json_Marshal :: "go_field list \<Rightarrow> json_error + string" where
  "json_Marshal fs = encode_fields fs (CHR ''{'')"

section \<open>The query tag\<close>

text \<open>
  \<open>backend.User\<close> and \<open>backend.PluginContext\<close> are declared in the plugin SDK. The
  program and its tests read the fields \<open>Login\<close>, \<open>Name\<close>, \<open>Email\<close> and \<open>Role\<close> of a
  user (here with the prefix \<open>User_\<close>, \<open>Role\<close> being a field of \<open>pluginConfig\<close> too),
  and \<open>OrgID\<close>, \<open>User\<close> (a pointer, \<open>nil\<close> is \<open>None\<close>) and
  \<open>DataSourceInstanceSettings\<close> of a plugin context.
\<close>

record backend_User =
  User_Login :: string
  User_Name :: string
  User_Email :: string
  User_Role :: string

record DataSourceInstanceSettings =
  JSONData :: string
  DecryptedSecureJSONData :: "string \<rightharpoonup> string"

record PluginContext =
  OrgID :: "64 word"
  User :: "backend_User option"
  DataSourceInstanceSettings :: DataSourceInstanceSettings

record queryTagData =
  Job :: string
  OrgId :: "64 word"
  UserLogin :: string
  UserName :: string
  UserEmail :: string
  UserRole :: string
  IsBackend :: bool
  IsAnonymous :: bool

text \<open>The fields of \<open>queryTagData\<close> in the order of the declaration, with their tags.\<close>

definition queryTagData_fields :: "queryTagData \<Rightarrow> go_field list" where
  "queryTagData_fields qtd =
     [\<lparr>name = ''job'', omitEmpty = False, fvalue = GoString (Job qtd)\<rparr>,
      \<lparr>name = ''org_id'', omitEmpty = False, fvalue = GoInt64 (OrgId qtd)\<rparr>,
      \<lparr>name = ''user_login'', omitEmpty = True, fvalue = GoString (UserLogin qtd)\<rparr>,
      \<lparr>name = ''user_name'', omitEmpty = True, fvalue = GoString (UserName qtd)\<rparr>,
      \<lparr>name = ''user_email'', omitEmpty = True, fvalue = GoString (UserEmail qtd)\<rparr>,
      \<lparr>name = ''user_role'', omitEmpty = True, fvalue = GoString (UserRole qtd)\<rparr>,
      \<lparr>name = ''is_backend'', omitEmpty = True, fvalue = GoBool (IsBackend qtd)\<rparr>,
      \<lparr>name = ''is_anonymous'', omitEmpty = True, fvalue = GoBool (IsAnonymous qtd)\<rparr>]"

text \<open>The first half of \<open>queryTagFromContext\<close>: the record \<open>qtd\<close> it fills in.\<close>

definition queryTagDataFromContext :: "PluginContext \<Rightarrow> queryTagData" where
  "queryTagDataFromContext pc =
     (let qtd = \<lparr>Job = ''Grafana'', OrgId = OrgID pc, UserLogin = [], UserName = [],
                 UserEmail = [], UserRole = [], IsBackend = False, IsAnonymous = False\<rparr>
      in case User pc of
           Some u \<Rightarrow>
             (let qtd = (if \<lparr>User_Login = [], User_Name = [], User_Email = [],
                              User_Role = User_Role u\<rparr> = u
                         then qtd\<lparr>IsAnonymous := True\<rparr> else qtd);
                  qtd = qtd\<lparr>UserName := User_Name u\<rparr>;
                  qtd = qtd\<lparr>UserLogin := User_Login u\<rparr>;
                  qtd = qtd\<lparr>UserEmail := User_Email u\<rparr>;
                  qtd = qtd\<lparr>UserRole := User_Role u\<rparr>
              in qtd)
         | None \<Rightarrow> qtd\<lparr>IsBackend := True\<rparr>)"

text \<open>The second half: the record is serialized, and an error of \<open>Marshal\<close> is returned.\<close>

definition queryTagFromContext :: "PluginContext \<Rightarrow> json_error + string" where
  "queryTagFromContext pc =
     (case json_Marshal (queryTagData_fields (queryTagDataFromContext pc)) of
        Inl err \<Rightarrow> Inl err
      | Inr queryTagBytes \<Rightarrow> Inr queryTagBytes)"

section \<open>Decoding the configuration\<close>

text \<open>
  \<open>getConfig\<close> calls \<open>json.Unmarshal\<close> on the bytes of \<open>settings.JSONData\<close>. The
  decoder of the library is an argument here: a function from the bytes to the decoded
  record or to the message of the error (\<open>err.Error()\<close>). \<open>getConfig\<close> returns what
  the decoder returned.
\<close>

type_synonym decoder = "string \<Rightarrow> string + pluginConfig"

definition getConfig :: "decoder \<Rightarrow> DataSourceInstanceSettings \<Rightarrow> string + pluginConfig" where
  "getConfig json_Unmarshal settings =
     (case json_Unmarshal (JSONData settings) of
        Inl err \<Rightarrow> Inl err
      | Inr config \<Rightarrow> Inr config)"

section \<open>The health check's validation\<close>

datatype HealthStatus = HealthStatusUnknown | HealthStatusOk | HealthStatusError

record CheckHealthResult =
  Status :: HealthStatus
  Message :: string

record CheckHealthRequest =
  PluginContext :: PluginContext

text \<open>
  The three outcomes of the validation: the connection string, a structured result with
  a status and a message, or the error of the query tag's serialization.
\<close>

datatype validation =
    Descriptor string
  | Failure CheckHealthResult
  | InternalError json_error

text \<open>Reading a \<open>map[string]string\<close>: a missing key reads as the empty string.\<close>

definition secret :: "(string \<rightharpoonup> string) \<Rightarrow> string \<Rightarrow> string" where
  "secret m key = (case m key of None \<Rightarrow> [] | Some v \<Rightarrow> v)"

text \<open>
  Modelled from the spec: \<open>createAndValidationConnectionString\<close>, the function
  that \<open>TestCreateAndValidationConnectionString\<close> calls, is not among the source
  files. Its steps are the states 0 to 5 of the specification's validator: the
  credential check, the decoding, the account and the username checks, the query tag,
  the assembly. The messages are the ones the test expects. The test also expects the
  parameter \<open>validateDefaultParameters=true\<close> at the end of every connection string,
  after \<open>extraConfig\<close> and separated from it by \<open>&\<close> when \<open>extraConfig\<close> is not
  empty; that is modelled as an extension of \<open>ExtraConfig\<close> before the assembly.
  The request carries its settings, as every request of the test does.
\<close>

definition createAndValidationConnectionString ::
  "decoder \<Rightarrow> CheckHealthRequest \<Rightarrow> validation" where
  "createAndValidationConnectionString json_Unmarshal req =
     (let settings = DataSourceInstanceSettings (PluginContext req);
          password = secret (DecryptedSecureJSONData settings) ''password'';
          privateKey = secret (DecryptedSecureJSONData settings) ''privateKey''
      in if password = [] \<and> privateKey = []
         then Failure \<lparr>Status = HealthStatusError,
                        Message = ''Password or private key are required.''\<rparr>
         else (case getConfig json_Unmarshal settings of
                 Inl err \<Rightarrow>
                   Failure \<lparr>Status = HealthStatusError,
                            Message = ''Error getting config: '' @ err\<rparr>
               | Inr config \<Rightarrow>
                   if length (Account config) = 0
                   then Failure \<lparr>Status = HealthStatusError, Message = ''Account not provided''\<rparr>
                   else if length (Username config) = 0
                   then Failure \<lparr>Status = HealthStatusError, Message = ''Username not provided''\<rparr>
                   else (case queryTagFromContext (PluginContext req) of
                           Inl err \<Rightarrow> InternalError err
                         | Inr queryTag \<Rightarrow>
                             (let config = config\<lparr>ExtraConfig :=
                                    (if length (ExtraConfig config) > 0
                                     then ExtraConfig config @ ''&validateDefaultParameters=true''
                                     else ''validateDefaultParameters=true'')\<rparr>
                              in Descriptor
                                   (getConnectionString config password privateKey queryTag)))))"

text \<open>
  The decoder at the inputs of the tests. \<open>TestGetConfig\<close> and
  \<open>TestCreateAndValidationConnectionString\<close> fix what \<open>json.Unmarshal\<close> gives for
  these configuration texts: the message \<open>unexpected end of JSON input\<close> for \<open>{\<close>,
  and a record with the listed fields, the others empty, for the well-formed ones.
  The table is used at these texts only (it answers any other text with an error).
\<close>

definition emptyConfig :: pluginConfig where
  "emptyConfig = \<lparr>Account = [], Username = [], Role = [], Warehouse = [], Database = [],
                   Schema = [], ExtraConfig = []\<rparr>"

definition decodedInTests :: "(string \<times> (string + pluginConfig)) list" where
  \<open>decodedInTests =
     [(''{'', Inl ''unexpected end of JSON input''),
      (''{}'', Inr emptyConfig),
      (''{"account":"test"}'', Inr (emptyConfig\<lparr>Account := ''test''\<rparr>)),
      (''{"account":"test","username":"user"}'',
         Inr (emptyConfig\<lparr>Account := ''test'', Username := ''user''\<rparr>)),
      (''{"account":"test","username":"user","extraConfig":"config=conf"}'',
         Inr (emptyConfig\<lparr>Account := ''test'', Username := ''user'',
                           ExtraConfig := ''config=conf''\<rparr>))]\<close>

definition testDecoder :: decoder where
  "testDecoder bytes =
     (case map_of decodedInTests bytes of
        Some r \<Rightarrow> r
      | None \<Rightarrow> Inl ''not a configuration text of the tests'')"

text \<open>The two configurations of \<open>TestGetConnectionString\<close>.\<close>

definition testConfig :: pluginConfig where
  "testConfig = \<lparr>Account = ''account'', Username = ''username'', Role = ''role'',
                  Warehouse = ''warehouse'', Database = ''database'', Schema = ''schema'',
                  ExtraConfig = ''conf=xxx''\<rparr>"

definition testConfigEscape :: pluginConfig where
  "testConfigEscape = \<lparr>Account = ''acc@ount'', Username = ''user@name'', Role = ''ro@le'',
                        Warehouse = ''ware@house'', Database = ''dat@base'',
                        Schema = ''sch@ema'', ExtraConfig = ''conf=xxx''\<rparr>"

text \<open>The three plugin contexts of \<open>TestBuildQueryTag\<close>.\<close>

definition noSettings :: DataSourceInstanceSettings where
  "noSettings = \<lparr>JSONData = [], DecryptedSecureJSONData = Map.empty\<rparr>"

definition backendContext :: PluginContext where
  "backendContext = \<lparr>OrgID = 123, User = None, DataSourceInstanceSettings = noSettings\<rparr>"

definition anonymousContext :: PluginContext where
  "anonymousContext =
     \<lparr>OrgID = 123,
      User = Some \<lparr>User_Login = [], User_Name = [], User_Email = [], User_Role = []\<rparr>,
      DataSourceInstanceSettings = noSettings\<rparr>"

definition userContext :: PluginContext where
  "userContext =
     \<lparr>OrgID = 123,
      User = Some \<lparr>User_Login = ''auserlogin'', User_Name = ''Firstname Lastname'',
                   User_Email = ''someone@example.com'', User_Role = []\<rparr>,
      DataSourceInstanceSettings = noSettings\<rparr>"

section \<open>Properties of the escaping\<close>

lemma escape_append: "escape (a @ b) mode = escape a mode @ escape b mode"
  by (induction a) simp_all

lemma upperhex_digit: "k < 16 \<Longrightarrow> upperhex ! k \<in> set upperhex"
  by (rule nth_mem) (simp add: upperhex_def)

lemma hex_digit_of_char:
  "upperhex ! (of_char c div 16) \<in> set upperhex"
  "upperhex ! (of_char c mod 16) \<in> set upperhex"
proof -
  have "(of_char c :: nat) < 256" by simp
  then have "(of_char c :: nat) div 16 < 16" by arith
  then show "upperhex ! (of_char c div 16) \<in> set upperhex" by (rule upperhex_digit)
  show "upperhex ! (of_char c mod 16) \<in> set upperhex" by (rule upperhex_digit) simp
qed

lemma shouldEscape_at: "shouldEscape (CHR ''@'') mode"
  by (cases mode) (simp_all add: shouldEscape_def)

lemma at_notin_escape_byte: "CHR ''@'' \<notin> set (escape_byte c mode)"
proof (cases "shouldEscape c mode")
  case True
  have "CHR ''@'' \<notin> set upperhex" by (simp add: upperhex_def)
  with hex_digit_of_char [of c] True show ?thesis
    by (auto simp: escape_byte_def)
next
  case False
  with shouldEscape_at [of mode] have "c \<noteq> CHR ''@''" by auto
  with False show ?thesis by (simp add: escape_byte_def)
qed

lemma at_notin_escape: "CHR ''@'' \<notin> set (escape s mode)"
  by (induction s) (simp_all add: at_notin_escape_byte)

lemma escape_byte_userinfo:
  "escape_byte (CHR ''@'') encodeUserPassword = ''%40''"
  "escape_byte (CHR ''/'') encodeUserPassword = ''%2F''"
  "escape_byte (CHR ''$'') encodeUserPassword = ''$''"
  "escape_byte (CHR ''&'') encodeUserPassword = ''&''"
  by (simp_all add: escape_byte_def shouldEscape_def upperhex_def)

lemma colon_notin_escape_byte: "CHR '':'' \<notin> set (escape_byte c encodeUserPassword)"
proof (cases "shouldEscape c encodeUserPassword")
  case True
  have "CHR '':'' \<notin> set upperhex" by (simp add: upperhex_def)
  with hex_digit_of_char [of c] True show ?thesis
    by (auto simp: escape_byte_def)
next
  case False
  have "shouldEscape (CHR '':'') encodeUserPassword" by (simp add: shouldEscape_def)
  with False have "c \<noteq> CHR '':''" by auto
  with False show ?thesis by (simp add: escape_byte_def)
qed

lemma colon_notin_escape: "CHR '':'' \<notin> set (escape s encodeUserPassword)"
  by (induction s) (simp_all add: colon_notin_escape_byte)

lemma reserved_notin_escape_byte:
  assumes "shouldEscape x mode" "x \<notin> set upperhex" "x \<noteq> CHR ''%''" "x \<noteq> CHR ''+''"
  shows "x \<notin> set (escape_byte c mode)"
proof (cases "shouldEscape c mode")
  case True
  with hex_digit_of_char [of c] assms show ?thesis
    by (auto simp: escape_byte_def)
next
  case False
  with assms(1) have "c \<noteq> x" by auto
  with False show ?thesis by (simp add: escape_byte_def)
qed

lemma reserved_notin_escape:
  assumes "shouldEscape x mode" "x \<notin> set upperhex" "x \<noteq> CHR ''%''" "x \<noteq> CHR ''+''"
  shows "x \<notin> set (escape s mode)"
  by (induction s) (simp_all add: reserved_notin_escape_byte [OF assms])

lemma separators_notin_QueryEscape:
  "CHR ''&'' \<notin> set (QueryEscape v)" "CHR ''='' \<notin> set (QueryEscape v)"
  unfolding QueryEscape_def
  by (rule reserved_notin_escape; simp add: shouldEscape_def upperhex_def)+

lemma QueryEscape_Cons:
  "QueryEscape (c # s) =
     (if (CHR ''a'' \<le> c \<and> c \<le> CHR ''z'') \<or> (CHR ''A'' \<le> c \<and> c \<le> CHR ''Z'')
         \<or> (CHR ''0'' \<le> c \<and> c \<le> CHR ''9'') \<or> c \<in> set ''-_.~''
      then [c]
      else if c = CHR '' '' then ''+''
      else [CHR ''%'', ''0123456789ABCDEF'' ! (of_char c div 16),
            ''0123456789ABCDEF'' ! (of_char c mod 16)])
     @ QueryEscape s"
  by (simp add: QueryEscape_def escape_byte_def shouldEscape_def upperhex_def)

section \<open>The two halves of the connection string\<close>

lemma connectionParts_fst:
  "fst (connectionParts config password privateKey queryTag) =
     (if privateKey \<noteq> [] then escape (Username config) encodeUserPassword
      else escape (Username config) encodeUserPassword @ '':''
           @ escape password encodeUserPassword)"
  by (simp add: connectionParts_def Let_def Userinfo_String_def url_User_def
      url_UserPassword_def)

lemma QueryEscape_keys:
  "QueryEscape ''role'' = ''role''"
  "QueryEscape ''warehouse'' = ''warehouse''"
  "QueryEscape ''database'' = ''database''"
  "QueryEscape ''schema'' = ''schema''"
  "QueryEscape ''QUERY_TAG'' = ''QUERY_TAG''"
  "QueryEscape ''authenticator'' = ''authenticator''"
  "QueryEscape ''privateKey'' = ''privateKey''"
  "QueryEscape ''SNOWFLAKE_JWT'' = ''SNOWFLAKE_JWT''"
  by (simp_all add: QueryEscape_def escape_byte_def shouldEscape_def)

lemma Encode_connectionParts:
  "Encode (snd (connectionParts config password privateKey queryTag)) =
     (if queryTag \<noteq> [] then ''QUERY_TAG='' @ QueryEscape queryTag @ ''&'' else [])
     @ (if privateKey \<noteq> [] then ''authenticator=SNOWFLAKE_JWT&'' else [])
     @ ''database='' @ QueryEscape (Database config)
     @ (if privateKey \<noteq> [] then ''&privateKey='' @ QueryEscape privateKey else [])
     @ ''&role='' @ QueryEscape (Role config)
     @ ''&schema='' @ QueryEscape (Schema config)
     @ ''&warehouse='' @ QueryEscape (Warehouse config)"
  by (simp add: connectionParts_def Let_def Add_def Values_get_def Encode_def Encode_key_def
      Encode_value_def QueryEscape_keys)

lemma getConnectionString_parts:
  "getConnectionString config password privateKey queryTag =
     fst (connectionParts config password privateKey queryTag) @ ''@'' @ Account config @ ''?''
     @ Encode (snd (connectionParts config password privateKey queryTag)) @ ''&''
     @ ExtraConfig config"
  by (simp add: getConnectionString_def split: prod.split)

lemma at_notin_userPass:
  "CHR ''@'' \<notin> set (fst (connectionParts config password privateKey queryTag))"
  by (simp add: connectionParts_fst at_notin_escape)

lemma extraConfig_suffix:
  "suffix (''&'' @ ExtraConfig config) (getConnectionString config password privateKey queryTag)"
proof -
  have "getConnectionString config password privateKey queryTag =
          (fst (connectionParts config password privateKey queryTag) @ ''@'' @ Account config
           @ ''?'' @ Encode (snd (connectionParts config password privateKey queryTag)))
          @ (''&'' @ ExtraConfig config)"
    by (simp add: getConnectionString_parts)
  then show ?thesis by (rule suffixI)
qed

text \<open>The definitions that evaluate a connection string at a concrete input.\<close>

lemmas connection_defs =
  getConnectionString_def connectionParts_def Add_def Values_get_def Encode_def Encode_key_def
  Encode_value_def QueryEscape_def escape_byte_def shouldEscape_def upperhex_def
  Userinfo_String_def url_UserPassword_def url_User_def

lemmas queryTag_defs =
  queryTagFromContext_def queryTagDataFromContext_def queryTagData_fields_def json_Marshal_def
  appendString_def appendString_loop.simps appendString_ascii_def FormatInt_def digits10.simps

section \<open>Serializing the query tag\<close>

text \<open>
  A struct whose fields all serialize is serialized: the error branch of the struct
  encoder is reached only through a field that \<open>encode_value\<close> rejects.
\<close>

lemma encode_fields_total:
  "(\<And>f. f \<in> set fs \<Longrightarrow> \<exists>s. encode_value (fvalue f) = Inr s)
   \<Longrightarrow> \<exists>s. encode_fields fs next = Inr s"
proof (induction fs arbitrary: "next")
  case Nil
  then show ?case by simp
next
  case (Cons f fs)
  from Cons.prems obtain s where s: "encode_value (fvalue f) = Inr s" by auto
  from Cons.prems have "\<And>g. g \<in> set fs \<Longrightarrow> \<exists>s. encode_value (fvalue g) = Inr s" by auto
  then have rest: "\<And>n. \<exists>r. encode_fields fs n = Inr r" by (rule Cons.IH)
  from rest [of "next"] rest [of "CHR '',''"] s show ?case by auto
qed

lemma queryTagData_fields_serialize:
  "f \<in> set (queryTagData_fields qtd) \<Longrightarrow> \<exists>s. encode_value (fvalue f) = Inr s"
  by (auto simp: queryTagData_fields_def)

lemma json_Marshal_queryTagData: "\<exists>s. json_Marshal (queryTagData_fields qtd) = Inr s"
  unfolding json_Marshal_def
  by (rule encode_fields_total) (rule queryTagData_fields_serialize)

text \<open>The error branch is not empty: a struct with a NaN field is rejected.\<close>

lemma json_Marshal_can_fail:
  "json_Marshal [\<lparr>name = ''job'', omitEmpty = False, fvalue = GoString ''Grafana''\<rparr>,
                 \<lparr>name = ''ratio'', omitEmpty = False, fvalue = GoUnsupportedValue ''NaN''\<rparr>]
   = Inl (UnsupportedValueError ''NaN'')"
  by (simp add: json_Marshal_def)

text \<open>
  The names of the fields and the job label need no escaping; neither does any string of
  printable ASCII bytes other than the quote, the backslash, \<open>&\<close>, \<open><\<close> and
  \<open>>\<close>.
\<close>

lemma appendString_names:
  \<open>appendString ''job'' = ''"job"''\<close>
  \<open>appendString ''org_id'' = ''"org_id"''\<close>
  \<open>appendString ''user_login'' = ''"user_login"''\<close>
  \<open>appendString ''user_name'' = ''"user_name"''\<close>
  \<open>appendString ''user_email'' = ''"user_email"''\<close>
  \<open>appendString ''user_role'' = ''"user_role"''\<close>
  \<open>appendString ''is_backend'' = ''"is_backend"''\<close>
  \<open>appendString ''is_anonymous'' = ''"is_anonymous"''\<close>
  \<open>appendString ''Grafana'' = ''"Grafana"''\<close>
  by (simp_all add: appendString_def appendString_loop.simps appendString_ascii_def)

lemma appendString_loop_plain:
  "(\<forall>c \<in> set s. 32 \<le> (of_char c :: nat) \<and> (of_char c :: nat) < 128
        \<and> c \<notin> set [CHR 0x22, CHR ''&'', CHR ''<'', CHR ''>'', CHR 0x5C])
   \<Longrightarrow> appendString_loop s = s"
  by (induction s) (simp_all add: appendString_loop.simps appendString_ascii_def)

text \<open>The record that \<open>queryTagFromContext\<close> fills in, and its serialization.\<close>

lemma queryTagData_classification:
  "(User pc = None \<longrightarrow>
      queryTagDataFromContext pc =
        \<lparr>Job = ''Grafana'', OrgId = OrgID pc, UserLogin = [], UserName = [], UserEmail = [],
         UserRole = [], IsBackend = True, IsAnonymous = False\<rparr>)
   \<and> (User pc = Some u \<and> User_Name u = [] \<and> User_Login u = [] \<and> User_Email u = [] \<longrightarrow>
      queryTagDataFromContext pc =
        \<lparr>Job = ''Grafana'', OrgId = OrgID pc, UserLogin = [], UserName = [], UserEmail = [],
         UserRole = User_Role u, IsBackend = False, IsAnonymous = True\<rparr>)
   \<and> (User pc = Some u \<and> \<not> (User_Name u = [] \<and> User_Login u = [] \<and> User_Email u = []) \<longrightarrow>
      queryTagDataFromContext pc =
        \<lparr>Job = ''Grafana'', OrgId = OrgID pc, UserLogin = User_Login u,
         UserName = User_Name u, UserEmail = User_Email u, UserRole = User_Role u,
         IsBackend = False, IsAnonymous = False\<rparr>)"
  by (cases u) (auto simp: queryTagDataFromContext_def)

lemma tag_backend:
  assumes "User pc = None"
  shows \<open>queryTagFromContext pc =
      Inr (''{"job":"Grafana","org_id":'' @ FormatInt (sint (OrgID pc))
           @ '',"is_backend":true}'')\<close>
  using assms queryTagData_classification [of pc]
  by (simp add: queryTagFromContext_def queryTagData_fields_def json_Marshal_def
      appendString_names)

lemma tag_anonymous:
  assumes "User pc = Some u" "User_Name u = []" "User_Login u = []" "User_Email u = []"
  shows \<open>queryTagFromContext pc =
      Inr (''{"job":"Grafana","org_id":'' @ FormatInt (sint (OrgID pc))
           @ (if User_Role u \<noteq> [] then '',"user_role":'' @ appendString (User_Role u) else [])
           @ '',"is_anonymous":true}'')\<close>
  using assms queryTagData_classification [of pc u]
  by (simp add: queryTagFromContext_def queryTagData_fields_def json_Marshal_def
      appendString_names)

lemma tag_named:
  assumes "User pc = Some u" "\<not> (User_Name u = [] \<and> User_Login u = [] \<and> User_Email u = [])"
  shows \<open>queryTagFromContext pc =
      Inr (''{"job":"Grafana","org_id":'' @ FormatInt (sint (OrgID pc))
           @ (if User_Login u \<noteq> [] then '',"user_login":'' @ appendString (User_Login u) else [])
           @ (if User_Name u \<noteq> [] then '',"user_name":'' @ appendString (User_Name u) else [])
           @ (if User_Email u \<noteq> [] then '',"user_email":'' @ appendString (User_Email u) else [])
           @ (if User_Role u \<noteq> [] then '',"user_role":'' @ appendString (User_Role u) else [])
           @ ''}'')\<close>
  using assms queryTagData_classification [of pc u]
  by (simp add: queryTagFromContext_def queryTagData_fields_def json_Marshal_def
      appendString_names)


section \<open>The validation of the health check\<close>

text \<open>
  C1. With the account \<open>test\<close>, the user name \<open>user\<close>, the password \<open>pass\<close>, no
  private key (absent or empty), no extraConfig, the organization 0 and no user in the
  plugin context, the validation succeeds, and the connection string is exactly
  \<open>user:pass@test?QUERY_TAG=...&database=&role=&schema=&warehouse=&validateDefaultParameters=true\<close>,
  where the tag is \<open>{"job":"Grafana","org_id":0,"is_backend":true}\<close> escaped as a query
  value.
\<close>

theorem validator_backend_descriptor:
  assumes "json_Unmarshal (JSONData settings) =
             Inr \<lparr>Account = ''test'', Username = ''user'', Role = [], Warehouse = [],
                  Database = [], Schema = [], ExtraConfig = []\<rparr>"
    and "secret (DecryptedSecureJSONData settings) ''password'' = ''pass''"
    and "secret (DecryptedSecureJSONData settings) ''privateKey'' = []"
  shows "createAndValidationConnectionString json_Unmarshal
           \<lparr>PluginContext = \<lparr>OrgID = 0, User = None, DataSourceInstanceSettings = settings\<rparr>\<rparr>
         = Descriptor ''user:pass@test?QUERY_TAG=%7B%22job%22%3A%22Grafana%22%2C%22org_id%22%3A0%2C%22is_backend%22%3Atrue%7D&database=&role=&schema=&warehouse=&validateDefaultParameters=true''"
proof -
  have tag: "queryTagFromContext
               \<lparr>OrgID = 0, User = None, DataSourceInstanceSettings = settings\<rparr>
             = Inr ([CHR ''{'', CHR 0x22] @ ''job'' @ [CHR 0x22, CHR '':'', CHR 0x22]
                    @ ''Grafana'' @ [CHR 0x22, CHR '','', CHR 0x22] @ ''org_id''
                    @ [CHR 0x22] @ '':0,'' @ [CHR 0x22] @ ''is_backend'' @ [CHR 0x22]
                    @ '':true}'')"
    by (simp add: queryTagFromContext_def queryTagDataFromContext_def queryTagData_fields_def
        json_Marshal_def appendString_def appendString_loop.simps appendString_ascii_def
        FormatInt_def digits10.simps)
  show ?thesis
    using assms
    by (simp add: createAndValidationConnectionString_def getConfig_def tag
        getConnectionString_def connectionParts_def Add_def Values_get_def Encode_def
        Encode_key_def Encode_value_def QueryEscape_def escape_byte_def shouldEscape_def
        upperhex_def Userinfo_String_def url_UserPassword_def)
qed

theorem validator_backend_descriptor_witness:
  \<open>createAndValidationConnectionString testDecoder
     \<lparr>PluginContext = \<lparr>OrgID = 0, User = None,
        DataSourceInstanceSettings =
          \<lparr>JSONData = ''{"account":"test","username":"user"}'',
           DecryptedSecureJSONData = [''password'' \<mapsto> ''pass'']\<rparr>\<rparr>\<rparr>
   = Descriptor ''user:pass@test?QUERY_TAG=%7B%22job%22%3A%22Grafana%22%2C%22org_id%22%3A0%2C%22is_backend%22%3Atrue%7D&database=&role=&schema=&warehouse=&validateDefaultParameters=true''\<close>
  using validator_backend_descriptor [of testDecoder
      \<open>\<lparr>JSONData = ''{"account":"test","username":"user"}'',
        DecryptedSecureJSONData = [''password'' \<mapsto> ''pass'']\<rparr>\<close>]
  by (simp add: testDecoder_def decodedInTests_def emptyConfig_def secret_def)

text \<open>
  C7. When the password and the private key are both empty or absent, the validation
  stops at its first check: whatever the configuration bytes, the decoder and the other
  fields of the request, the result is the error status with the message
  \<open>Password or private key are required.\<close>
\<close>

theorem validator_missing_credential:
  assumes "DecryptedSecureJSONData (DataSourceInstanceSettings (PluginContext req)) ''password''
             = None
           \<or> DecryptedSecureJSONData (DataSourceInstanceSettings (PluginContext req)) ''password''
             = Some []"
    and "DecryptedSecureJSONData (DataSourceInstanceSettings (PluginContext req)) ''privateKey''
             = None
           \<or> DecryptedSecureJSONData (DataSourceInstanceSettings (PluginContext req)) ''privateKey''
             = Some []"
  shows "createAndValidationConnectionString json_Unmarshal req
         = Failure \<lparr>Status = HealthStatusError,
                    Message = ''Password or private key are required.''\<rparr>"
  using assms
  by (auto simp: createAndValidationConnectionString_def secret_def)

theorem validator_missing_credential_witness:
  "createAndValidationConnectionString testDecoder
     \<lparr>PluginContext = \<lparr>OrgID = 0, User = None,
        DataSourceInstanceSettings =
          \<lparr>JSONData = [], DecryptedSecureJSONData = [''password'' \<mapsto> []]\<rparr>\<rparr>\<rparr>
   = Failure \<lparr>Status = HealthStatusError, Message = ''Password or private key are required.''\<rparr>"
  using validator_missing_credential [of
      "\<lparr>PluginContext = \<lparr>OrgID = 0, User = None,
          DataSourceInstanceSettings =
            \<lparr>JSONData = [], DecryptedSecureJSONData = [''password'' \<mapsto> []]\<rparr>\<rparr>\<rparr>"
      testDecoder]
  by simp

text \<open>
  Without a credential the decoder's message is not surfaced: for the bytes \<open>{\<close> and
  an empty password the validation returns the message of the credential check.
\<close>

theorem validator_decode_error_hidden_without_credential:
  "testDecoder ''{'' = Inl ''unexpected end of JSON input''
   \<and> createAndValidationConnectionString testDecoder
       \<lparr>PluginContext = \<lparr>OrgID = 0, User = None,
          DataSourceInstanceSettings =
            \<lparr>JSONData = ''{'', DecryptedSecureJSONData = [''password'' \<mapsto> []]\<rparr>\<rparr>\<rparr>
     = Failure \<lparr>Status = HealthStatusError,
                Message = ''Password or private key are required.''\<rparr>
   \<and> createAndValidationConnectionString testDecoder
       \<lparr>PluginContext = \<lparr>OrgID = 0, User = None,
          DataSourceInstanceSettings =
            \<lparr>JSONData = ''{'', DecryptedSecureJSONData = [''password'' \<mapsto> []]\<rparr>\<rparr>\<rparr>
     \<noteq> Failure \<lparr>Status = HealthStatusError,
                Message = ''Error getting config: unexpected end of JSON input''\<rparr>"
  by (simp add: createAndValidationConnectionString_def secret_def testDecoder_def
      decodedInTests_def)

text \<open>
  C8 (amended). When the decoder fails on the configuration bytes, \<open>getConfig\<close> fails
  with the decoder's message unchanged; and when the password or the private key is not
  empty, the validation returns the error status whose message is that text after the
  fixed label \<open>Error getting config: \<close>. For the bytes \<open>{\<close> the text is
  \<open>unexpected end of JSON input\<close>.
\<close>

theorem validator_decode_error_verbatim:
  assumes "json_Unmarshal (JSONData (DataSourceInstanceSettings (PluginContext req))) = Inl msg"
  shows "getConfig json_Unmarshal (DataSourceInstanceSettings (PluginContext req)) = Inl msg
         \<and> (secret (DecryptedSecureJSONData (DataSourceInstanceSettings (PluginContext req)))
               ''password'' \<noteq> []
             \<or> secret (DecryptedSecureJSONData (DataSourceInstanceSettings (PluginContext req)))
               ''privateKey'' \<noteq> []
            \<longrightarrow> createAndValidationConnectionString json_Unmarshal req
                = Failure \<lparr>Status = HealthStatusError,
                           Message = ''Error getting config: '' @ msg\<rparr>)"
  using assms
  by (auto simp: createAndValidationConnectionString_def getConfig_def)

theorem validator_decode_error_verbatim_witness:
  "getConfig testDecoder \<lparr>JSONData = ''{'', DecryptedSecureJSONData = [''password'' \<mapsto> ''pass'']\<rparr>
     = Inl ''unexpected end of JSON input''
   \<and> createAndValidationConnectionString testDecoder
       \<lparr>PluginContext = \<lparr>OrgID = 0, User = None,
          DataSourceInstanceSettings =
            \<lparr>JSONData = ''{'', DecryptedSecureJSONData = [''password'' \<mapsto> ''pass'']\<rparr>\<rparr>\<rparr>
     = Failure \<lparr>Status = HealthStatusError,
                Message = ''Error getting config: unexpected end of JSON input''\<rparr>"
  using validator_decode_error_verbatim [of testDecoder
      "\<lparr>PluginContext = \<lparr>OrgID = 0, User = None,
          DataSourceInstanceSettings =
            \<lparr>JSONData = ''{'', DecryptedSecureJSONData = [''password'' \<mapsto> ''pass'']\<rparr>\<rparr>\<rparr>"
      "''unexpected end of JSON input''"]
  by (simp add: testDecoder_def decodedInTests_def secret_def)

lemma validator_no_internal_error:
  "createAndValidationConnectionString json_Unmarshal req \<noteq> InternalError err"
  using json_Marshal_queryTagData [of "queryTagDataFromContext (PluginContext req)"]
  by (auto simp: createAndValidationConnectionString_def queryTagFromContext_def Let_def
      split: sum.splits)

section \<open>The assembled connection string\<close>

text \<open>
  C3. With a private key that is not empty, whatever the configuration, the password
  and the query tag: the parameters \<open>authenticator=SNOWFLAKE_JWT\<close> and
  \<open>privateKey=\<close> with the (form-encoded) key are in the connection string; the
  credential prefix before \<open>@\<close> is the escaped user name alone, without the separator
  \<open>:\<close> of a password; and the password is left out: the connection string is the same
  for every password, empty or not.
\<close>

theorem private_key_selects_jwt:
  assumes "privateKey \<noteq> []"
  shows "getConnectionString config password privateKey queryTag =
           escape (Username config) encodeUserPassword @ ''@'' @ Account config @ ''?''
           @ (if queryTag \<noteq> [] then ''QUERY_TAG='' @ QueryEscape queryTag @ ''&'' else [])
           @ ''authenticator=SNOWFLAKE_JWT''
           @ ''&database='' @ QueryEscape (Database config)
           @ ''&privateKey='' @ QueryEscape privateKey
           @ ''&role='' @ QueryEscape (Role config)
           @ ''&schema='' @ QueryEscape (Schema config)
           @ ''&warehouse='' @ QueryEscape (Warehouse config)
           @ ''&'' @ ExtraConfig config
         \<and> CHR '':'' \<notin> set (escape (Username config) encodeUserPassword)
         \<and> CHR ''@'' \<notin> set (escape (Username config) encodeUserPassword)
         \<and> getConnectionString config password' privateKey queryTag
           = getConnectionString config password privateKey queryTag"
  using assms
  by (simp add: getConnectionString_parts connectionParts_fst Encode_connectionParts
      colon_notin_escape at_notin_escape)

theorem private_key_selects_jwt_witness:
  "''privateKey'' \<noteq> []
   \<and> getConnectionString testConfig ''password'' ''privateKey'' [] =
     ''username@account?authenticator=SNOWFLAKE_JWT&database=database&privateKey=privateKey&role=role&schema=schema&warehouse=warehouse&conf=xxx''
   \<and> getConnectionString testConfig [] ''privateKey'' []
     = getConnectionString testConfig ''password'' ''privateKey'' []"
  using private_key_selects_jwt [of "''privateKey''" testConfig "''password''" "[]" "[]"]
  by (simp add: testConfig_def QueryEscape_def escape_byte_def shouldEscape_def)

text \<open>
  C4. With an empty private key the credential prefix is the user name, \<open>:\<close> and the
  password, each escaped by the rules for user information: wherever it stands in
  either of them, \<open>@\<close> becomes \<open>%40\<close> and \<open>/\<close> becomes \<open>%2F\<close>, while \<open>$\<close> and
  \<open>&\<close> are kept as they are.
\<close>

theorem password_mode_userinfo_escaping:
  "getConnectionString config password [] queryTag =
     escape (Username config) encodeUserPassword @ '':'' @ escape password encodeUserPassword
     @ ''@'' @ Account config @ ''?''
     @ (if queryTag \<noteq> [] then ''QUERY_TAG='' @ QueryEscape queryTag @ ''&'' else [])
     @ ''database='' @ QueryEscape (Database config)
     @ ''&role='' @ QueryEscape (Role config)
     @ ''&schema='' @ QueryEscape (Schema config)
     @ ''&warehouse='' @ QueryEscape (Warehouse config)
     @ ''&'' @ ExtraConfig config
   \<and> escape (a @ ''@'' @ b) encodeUserPassword
     = escape a encodeUserPassword @ ''%40'' @ escape b encodeUserPassword
   \<and> escape (a @ ''/'' @ b) encodeUserPassword
     = escape a encodeUserPassword @ ''%2F'' @ escape b encodeUserPassword
   \<and> escape (a @ ''$'' @ b) encodeUserPassword
     = escape a encodeUserPassword @ ''$'' @ escape b encodeUserPassword
   \<and> escape (a @ ''&'' @ b) encodeUserPassword
     = escape a encodeUserPassword @ ''&'' @ escape b encodeUserPassword"
  by (simp add: getConnectionString_parts connectionParts_fst Encode_connectionParts
      escape_append escape_byte_userinfo)

theorem password_mode_userinfo_escaping_witness:
  "getConnectionString testConfigEscape ''pa$$s&'' [] [] =
     ''user%40name:pa$$s&@acc@ount?database=dat%40base&role=ro%40le&schema=sch%40ema&warehouse=ware%40house&conf=xxx''
   \<and> escape ''p@sswor/d'' encodeUserPassword = ''p%40sswor%2Fd''"
  using password_mode_userinfo_escaping [of testConfigEscape "''pa$$s&''" "[]" "''user''" "''name''"]
    password_mode_userinfo_escaping [of testConfigEscape "''pa$$s&''" "[]" "''p''" "''sswor/d''"]
    password_mode_userinfo_escaping [of testConfigEscape "''pa$$s&''" "[]" "''sswor''" "''d''"]
  by (simp add: testConfigEscape_def QueryEscape_def escape_byte_def shouldEscape_def
      upperhex_def)

text \<open>
  C6. The parameters of every connection string have the keys \<open>role\<close>, \<open>warehouse\<close>,
  \<open>database\<close> and \<open>schema\<close>, also when their values are empty; they have the key
  \<open>QUERY_TAG\<close> exactly when the query tag is not empty; and the segment between \<open>?\<close>
  and the last \<open>&\<close> lists them in one fixed order, ascending by key (bytewise, so
  that the upper-case \<open>QUERY_TAG\<close> comes first): \<open>QUERY_TAG\<close>,
  \<open>authenticator\<close>, \<open>database\<close>, \<open>privateKey\<close>, \<open>role\<close>, \<open>schema\<close>,
  \<open>warehouse\<close>. Every value is form-encoded: letters, digits and \<open>-_.~\<close> are
  copied, a space becomes \<open>+\<close>, and any other byte becomes \<open>%\<close> and its two
  upper-case hexadecimal digits, so that no value contains \<open>&\<close> or \<open>=\<close>.
\<close>

theorem parameters_sorted_form_encoded:
  "{''role'', ''warehouse'', ''database'', ''schema''}
     \<subseteq> fst ` set (snd (connectionParts config password privateKey queryTag))
   \<and> (''QUERY_TAG'' \<in> fst ` set (snd (connectionParts config password privateKey queryTag))
        \<longleftrightarrow> queryTag \<noteq> [])
   \<and> getConnectionString config password privateKey queryTag =
       fst (connectionParts config password privateKey queryTag) @ ''@'' @ Account config @ ''?''
       @ (if queryTag \<noteq> [] then ''QUERY_TAG='' @ QueryEscape queryTag @ ''&'' else [])
       @ (if privateKey \<noteq> [] then ''authenticator=SNOWFLAKE_JWT&'' else [])
       @ ''database='' @ QueryEscape (Database config)
       @ (if privateKey \<noteq> [] then ''&privateKey='' @ QueryEscape privateKey else [])
       @ ''&role='' @ QueryEscape (Role config)
       @ ''&schema='' @ QueryEscape (Schema config)
       @ ''&warehouse='' @ QueryEscape (Warehouse config)
       @ ''&'' @ ExtraConfig config
   \<and> QueryEscape [] = []
   \<and> QueryEscape (c # s) =
       (if (CHR ''a'' \<le> c \<and> c \<le> CHR ''z'') \<or> (CHR ''A'' \<le> c \<and> c \<le> CHR ''Z'')
           \<or> (CHR ''0'' \<le> c \<and> c \<le> CHR ''9'') \<or> c \<in> set ''-_.~''
        then [c]
        else if c = CHR '' '' then ''+''
        else [CHR ''%'', ''0123456789ABCDEF'' ! (of_char c div 16),
              ''0123456789ABCDEF'' ! (of_char c mod 16)])
       @ QueryEscape s
   \<and> CHR ''&'' \<notin> set (QueryEscape v) \<and> CHR ''='' \<notin> set (QueryEscape v)"
proof -
  have keys: "fst ` set (snd (connectionParts config password privateKey queryTag)) =
                {''role'', ''warehouse'', ''database'', ''schema''}
                \<union> (if queryTag \<noteq> [] then {''QUERY_TAG''} else {})
                \<union> (if privateKey \<noteq> [] then {''authenticator'', ''privateKey''} else {})"
    by (auto simp: connectionParts_def Let_def Add_def Values_get_def)
  have empty: "QueryEscape [] = []" by (simp add: QueryEscape_def)
  show ?thesis
    unfolding keys
    using QueryEscape_Cons [of c s] separators_notin_QueryEscape [of v] empty
    by (simp add: getConnectionString_parts Encode_connectionParts)
qed

theorem parameters_sorted_form_encoded_witness:
  "getConnectionString testConfigEscape ''pa$$s&'' [] ''a b&c=d/~'' =
     ''user%40name:pa$$s&@acc@ount?QUERY_TAG=a+b%26c%3Dd%2F~&database=dat%40base&role=ro%40le&schema=sch%40ema&warehouse=ware%40house&conf=xxx''
   \<and> getConnectionString emptyConfig ''p'' [] [] = '':p@?database=&role=&schema=&warehouse=&''
   \<and> QueryEscape ''ro@le'' = ''ro%40le''
   \<and> CHR ''&'' \<notin> set (QueryEscape ''x&role=admin'')"
  using parameters_sorted_form_encoded [of testConfigEscape "''pa$$s&''" "[]" "''a b&c=d/~''"
      "CHR ''r''" "''o@le''" "''x&role=admin''"]
    parameters_sorted_form_encoded [of emptyConfig "''p''" "[]" "[]" "CHR ''o''" "''@le''"]
    parameters_sorted_form_encoded [of emptyConfig "''p''" "[]" "[]" "CHR ''@''" "''le''"]
  by (simp add: testConfigEscape_def emptyConfig_def connectionParts_fst QueryEscape_def
      escape_byte_def shouldEscape_def upperhex_def)

text \<open>
  C9. The account is not escaped. The credential prefix holds no \<open>@\<close>, so the first
  \<open>@\<close> of the connection string is the separator; the account follows it byte for
  byte, then \<open>?\<close>, the parameters, \<open>&\<close> and the extra configuration; and neither the
  prefix nor the parameters depend on the account.
\<close>

theorem account_verbatim:
  "takeWhile (\<lambda>c. c \<noteq> CHR ''@'') (getConnectionString config password privateKey queryTag)
     = fst (connectionParts config password privateKey queryTag)
   \<and> dropWhile (\<lambda>c. c \<noteq> CHR ''@'') (getConnectionString config password privateKey queryTag)
     = ''@'' @ Account config @ ''?''
       @ Encode (snd (connectionParts config password privateKey queryTag))
       @ ''&'' @ ExtraConfig config
   \<and> connectionParts (config\<lparr>Account := a\<rparr>) password privateKey queryTag
     = connectionParts config password privateKey queryTag"
proof -
  have no_at: "\<And>x. x \<in> set (fst (connectionParts config password privateKey queryTag))
                 \<Longrightarrow> x \<noteq> CHR ''@''"
    using at_notin_userPass [of config password privateKey queryTag] by auto
  have "takeWhile (\<lambda>c. c \<noteq> CHR ''@'')
          (getConnectionString config password privateKey queryTag)
        = fst (connectionParts config password privateKey queryTag)"
    unfolding getConnectionString_parts
    by (subst takeWhile_append2) (simp_all add: no_at)
  moreover have "dropWhile (\<lambda>c. c \<noteq> CHR ''@'')
                   (getConnectionString config password privateKey queryTag)
                 = ''@'' @ Account config @ ''?''
                   @ Encode (snd (connectionParts config password privateKey queryTag))
                   @ ''&'' @ ExtraConfig config"
    unfolding getConnectionString_parts
    by (subst dropWhile_append2) (simp_all add: no_at)
  moreover have "connectionParts (config\<lparr>Account := a\<rparr>) password privateKey queryTag
                 = connectionParts config password privateKey queryTag"
    by (simp add: connectionParts_def Let_def)
  ultimately show ?thesis by simp
qed

theorem account_verbatim_witness:
  "dropWhile (\<lambda>c. c \<noteq> CHR ''@'') (getConnectionString testConfigEscape ''pa$$s&'' [] [])
     = ''@acc@ount?database=dat%40base&role=ro%40le&schema=sch%40ema&warehouse=ware%40house&conf=xxx''"
  using account_verbatim [of testConfigEscape "''pa$$s&''" "[]" "[]"]
  by (simp add: testConfigEscape_def Encode_connectionParts QueryEscape_def escape_byte_def
      shouldEscape_def upperhex_def)

section \<open>The query tag\<close>

text \<open>
  C5. The tag that \<open>queryTagFromContext\<close> returns is classified by the first case
  that applies. Without a user the tag is the job, the organization and
  \<open>is_backend\<close>: the record has \<open>IsBackend\<close> set and the name, login, email and
  role empty. With a user whose name, login and email are all empty the tag ends with
  \<open>is_anonymous\<close> and carries the user's role when there is one. With any other user
  the tag has neither flag and carries the login, name, email and role of the user, each
  when it is not empty. A value is written as a JSON string; a value of plain printable
  ASCII is written between quotes byte for byte.
\<close>

theorem query_tag_classification:
  \<open>(User pc = None \<longrightarrow>
      queryTagDataFromContext pc =
        \<lparr>Job = ''Grafana'', OrgId = OrgID pc, UserLogin = [], UserName = [], UserEmail = [],
         UserRole = [], IsBackend = True, IsAnonymous = False\<rparr>
      \<and> queryTagFromContext pc =
        Inr (''{"job":"Grafana","org_id":'' @ FormatInt (sint (OrgID pc))
             @ '',"is_backend":true}''))
   \<and> (User pc = Some u \<and> User_Name u = [] \<and> User_Login u = [] \<and> User_Email u = [] \<longrightarrow>
      queryTagDataFromContext pc =
        \<lparr>Job = ''Grafana'', OrgId = OrgID pc, UserLogin = [], UserName = [], UserEmail = [],
         UserRole = User_Role u, IsBackend = False, IsAnonymous = True\<rparr>
      \<and> queryTagFromContext pc =
        Inr (''{"job":"Grafana","org_id":'' @ FormatInt (sint (OrgID pc))
             @ (if User_Role u \<noteq> [] then '',"user_role":'' @ appendString (User_Role u)
                else [])
             @ '',"is_anonymous":true}''))
   \<and> (User pc = Some u \<and> \<not> (User_Name u = [] \<and> User_Login u = [] \<and> User_Email u = []) \<longrightarrow>
      queryTagDataFromContext pc =
        \<lparr>Job = ''Grafana'', OrgId = OrgID pc, UserLogin = User_Login u,
         UserName = User_Name u, UserEmail = User_Email u, UserRole = User_Role u,
         IsBackend = False, IsAnonymous = False\<rparr>
      \<and> queryTagFromContext pc =
        Inr (''{"job":"Grafana","org_id":'' @ FormatInt (sint (OrgID pc))
             @ (if User_Login u \<noteq> [] then '',"user_login":'' @ appendString (User_Login u)
                else [])
             @ (if User_Name u \<noteq> [] then '',"user_name":'' @ appendString (User_Name u)
                else [])
             @ (if User_Email u \<noteq> [] then '',"user_email":'' @ appendString (User_Email u)
                else [])
             @ (if User_Role u \<noteq> [] then '',"user_role":'' @ appendString (User_Role u)
                else [])
             @ ''}''))
   \<and> ((\<forall>c \<in> set s. 32 \<le> (of_char c :: nat) \<and> (of_char c :: nat) < 128
          \<and> c \<notin> set [CHR 0x22, CHR ''&'', CHR ''<'', CHR ''>'', CHR 0x5C])
        \<longrightarrow> appendString s = [CHR 0x22] @ s @ [CHR 0x22])\<close>
proof (intro conjI impI)
  assume "\<forall>c \<in> set s. 32 \<le> (of_char c :: nat) \<and> (of_char c :: nat) < 128
          \<and> c \<notin> set [CHR 0x22, CHR ''&'', CHR ''<'', CHR ''>'', CHR 0x5C]"
  then have "appendString_loop s = s" by (rule appendString_loop_plain)
  then show "appendString s = [CHR 0x22] @ s @ [CHR 0x22]" by (simp add: appendString_def)
qed (use queryTagData_classification [of pc u] tag_backend [of pc] tag_anonymous [of pc u]
      tag_named [of pc u] in \<open>simp_all\<close>)

theorem query_tag_classification_witness:
  \<open>queryTagFromContext backendContext = Inr ''{"job":"Grafana","org_id":123,"is_backend":true}''
   \<and> queryTagFromContext anonymousContext
     = Inr ''{"job":"Grafana","org_id":123,"is_anonymous":true}''
   \<and> queryTagFromContext (anonymousContext\<lparr>User :=
         Some \<lparr>User_Login = [], User_Name = [], User_Email = [], User_Role = ''Viewer''\<rparr>\<rparr>)
     = Inr ''{"job":"Grafana","org_id":123,"user_role":"Viewer","is_anonymous":true}''
   \<and> queryTagFromContext userContext
     = Inr ''{"job":"Grafana","org_id":123,"user_login":"auserlogin","user_name":"Firstname Lastname","user_email":"someone@example.com"}''
   \<and> queryTagDataFromContext userContext =
     \<lparr>Job = ''Grafana'', OrgId = 123, UserLogin = ''auserlogin'',
      UserName = ''Firstname Lastname'', UserEmail = ''someone@example.com'', UserRole = [],
      IsBackend = False, IsAnonymous = False\<rparr>\<close>
  using query_tag_classification [of backendContext _ "''Viewer''"]
    query_tag_classification [of anonymousContext
      "\<lparr>User_Login = [], User_Name = [], User_Email = [], User_Role = []\<rparr>" "''auserlogin''"]
    query_tag_classification [of "anonymousContext\<lparr>User :=
         Some \<lparr>User_Login = [], User_Name = [], User_Email = [], User_Role = ''Viewer''\<rparr>\<rparr>"
      "\<lparr>User_Login = [], User_Name = [], User_Email = [], User_Role = ''Viewer''\<rparr>"
      "''Firstname Lastname''"]
    query_tag_classification [of userContext
      "\<lparr>User_Login = ''auserlogin'', User_Name = ''Firstname Lastname'',
        User_Email = ''someone@example.com'', User_Role = []\<rparr>" "''someone@example.com''"]
  by (simp add: backendContext_def anonymousContext_def userContext_def FormatInt_def
      digits10.simps)

text \<open>
  C10. For every plugin context \<open>queryTagFromContext\<close> returns a string and no error:
  the fields of the tag record are strings, a 64-bit integer and booleans, and the
  serializer rejects none of them.
\<close>

theorem queryTag_never_fails: "\<exists>queryTag. queryTagFromContext pc = Inr queryTag"
  using json_Marshal_queryTagData [of "queryTagDataFromContext pc"]
  by (auto simp: queryTagFromContext_def)

theorem queryTag_never_fails_witness:
  "\<exists>queryTag. queryTagFromContext userContext = Inr queryTag"
  using queryTag_never_fails [of userContext] .

section \<open>The extra configuration\<close>

text \<open>
  The validation does not end its connection string with the extra configuration: for
  the configuration of the test with \<open>extraConfig\<close> set to \<open>config=conf\<close> the
  connection string ends with \<open>validateDefaultParameters=true\<close>.
\<close>

theorem validator_extraConfig_not_last:
  \<open>createAndValidationConnectionString testDecoder
     \<lparr>PluginContext = \<lparr>OrgID = 0, User = None,
        DataSourceInstanceSettings =
          \<lparr>JSONData = ''{"account":"test","username":"user","extraConfig":"config=conf"}'',
           DecryptedSecureJSONData = [''password'' \<mapsto> ''pass'']\<rparr>\<rparr>\<rparr>
   = Descriptor ''user:pass@test?QUERY_TAG=%7B%22job%22%3A%22Grafana%22%2C%22org_id%22%3A0%2C%22is_backend%22%3Atrue%7D&database=&role=&schema=&warehouse=&config=conf&validateDefaultParameters=true''
   \<and> \<not> suffix ''config=conf'' ''user:pass@test?QUERY_TAG=%7B%22job%22%3A%22Grafana%22%2C%22org_id%22%3A0%2C%22is_backend%22%3Atrue%7D&database=&role=&schema=&warehouse=&config=conf&validateDefaultParameters=true''\<close>
  by (simp add: createAndValidationConnectionString_def getConfig_def secret_def
      testDecoder_def decodedInTests_def emptyConfig_def queryTag_defs connection_defs
      suffix_to_prefix)

text \<open>
  C2 (amended). Every connection string that \<open>getConnectionString\<close> assembles ends with
  \<open>&\<close> and the extra configuration, byte for byte. The validation puts the parameter
  \<open>validateDefaultParameters=true\<close> behind it: its connection string ends with \<open>&\<close>,
  the extra configuration, \<open>&validateDefaultParameters=true\<close> when the extra
  configuration is not empty, and with \<open>&validateDefaultParameters=true\<close> when it is.
\<close>

theorem extraConfig_position:
  "suffix (''&'' @ ExtraConfig config) (getConnectionString config password privateKey queryTag)
   \<and> (getConfig json_Unmarshal (DataSourceInstanceSettings (PluginContext req)) = Inr config
        \<and> createAndValidationConnectionString json_Unmarshal req = Descriptor d
      \<longrightarrow> suffix (''&'' @ (if ExtraConfig config = [] then ''validateDefaultParameters=true''
                           else ExtraConfig config @ ''&validateDefaultParameters=true'')) d)"
  using extraConfig_suffix [of config]
    extraConfig_suffix [of "config\<lparr>ExtraConfig := ''validateDefaultParameters=true''\<rparr>"]
    extraConfig_suffix [of "config\<lparr>ExtraConfig :=
                              ExtraConfig config @ ''&validateDefaultParameters=true''\<rparr>"]
  by (auto simp: createAndValidationConnectionString_def Let_def
      split: if_splits sum.splits)

theorem extraConfig_position_witness:
  \<open>suffix ''&conf=xxx'' (getConnectionString testConfig ''password'' [] [])
   \<and> createAndValidationConnectionString testDecoder
       \<lparr>PluginContext = \<lparr>OrgID = 0, User = None,
          DataSourceInstanceSettings =
            \<lparr>JSONData = ''{"account":"test","username":"user","extraConfig":"config=conf"}'',
             DecryptedSecureJSONData = [''password'' \<mapsto> ''pass'']\<rparr>\<rparr>\<rparr>
     = Descriptor ''user:pass@test?QUERY_TAG=%7B%22job%22%3A%22Grafana%22%2C%22org_id%22%3A0%2C%22is_backend%22%3Atrue%7D&database=&role=&schema=&warehouse=&config=conf&validateDefaultParameters=true''
   \<and> suffix ''&config=conf&validateDefaultParameters=true''
        ''user:pass@test?QUERY_TAG=%7B%22job%22%3A%22Grafana%22%2C%22org_id%22%3A0%2C%22is_backend%22%3Atrue%7D&database=&role=&schema=&warehouse=&config=conf&validateDefaultParameters=true''\<close>
  using extraConfig_position [of testConfig "''password''" "[]" "[]"]
    extraConfig_position [of \<open>emptyConfig\<lparr>Account := ''test'', Username := ''user'',
                           ExtraConfig := ''config=conf''\<rparr>\<close> _ _ _ testDecoder
     \<open>\<lparr>PluginContext = \<lparr>OrgID = 0, User = None,
        DataSourceInstanceSettings =
          \<lparr>JSONData = ''{"account":"test","username":"user","extraConfig":"config=conf"}'',
           DecryptedSecureJSONData = [''password'' \<mapsto> ''pass'']\<rparr>\<rparr>\<rparr>\<close>
     \<open>''user:pass@test?QUERY_TAG=%7B%22job%22%3A%22Grafana%22%2C%22org_id%22%3A0%2C%22is_backend%22%3Atrue%7D&database=&role=&schema=&warehouse=&config=conf&validateDefaultParameters=true''\<close>]
  by (simp add: testConfig_def createAndValidationConnectionString_def getConfig_def secret_def
      testDecoder_def decodedInTests_def emptyConfig_def queryTag_defs connection_defs)

end
